theory Spec2Isabelle
  imports Complex_Main
begin

section \<open>JavaScript numbers\<close>

text \<open>
  A JavaScript \<^verbatim>\<open>number\<close> is modelled as an exact rational, the two infinities, or NaN.
  Finite values are exact: the rounding of IEEE doubles is not modelled, and neither is
  the sign of zero (a zero divisor counts as \<open>+0\<close>). NaN is kept because
  \<^verbatim>\<open>parseInt\<close> and \<^verbatim>\<open>parseFloat\<close> return it on text that is not a number, and
  the infinities because division by zero and the literal \<^verbatim>\<open>Infinity\<close> produce them.
\<close>

datatype jsnum = Num rat | PInf | NInf | NaN

fun js_neg :: "jsnum \<Rightarrow> jsnum" where
  "js_neg (Num a) = Num (- a)"
| "js_neg PInf = NInf"
| "js_neg NInf = PInf"
| "js_neg NaN = NaN"

fun js_add :: "jsnum \<Rightarrow> jsnum \<Rightarrow> jsnum" where
  "js_add (Num a) (Num b) = Num (a + b)"
| "js_add NaN _ = NaN"
| "js_add _ NaN = NaN"
| "js_add PInf NInf = NaN"
| "js_add NInf PInf = NaN"
| "js_add PInf _ = PInf"
| "js_add _ PInf = PInf"
| "js_add NInf _ = NInf"
| "js_add _ NInf = NInf"

definition js_sub :: "jsnum \<Rightarrow> jsnum \<Rightarrow> jsnum" where
  "js_sub a b = js_add a (js_neg b)"

text \<open>The sign of a product or quotient with an infinite operand.\<close>

definition signed_inf :: "bool \<Rightarrow> jsnum" where
  "signed_inf negative = (if negative then NInf else PInf)"

fun js_mul :: "jsnum \<Rightarrow> jsnum \<Rightarrow> jsnum" where
  "js_mul (Num a) (Num b) = Num (a * b)"
| "js_mul NaN _ = NaN"
| "js_mul _ NaN = NaN"
| "js_mul PInf (Num b) = (if b = 0 then NaN else signed_inf (b < 0))"
| "js_mul NInf (Num b) = (if b = 0 then NaN else signed_inf (0 < b))"
| "js_mul (Num a) PInf = (if a = 0 then NaN else signed_inf (a < 0))"
| "js_mul (Num a) NInf = (if a = 0 then NaN else signed_inf (0 < a))"
| "js_mul PInf PInf = PInf"
| "js_mul PInf NInf = NInf"
| "js_mul NInf PInf = NInf"
| "js_mul NInf NInf = PInf"

fun js_div :: "jsnum \<Rightarrow> jsnum \<Rightarrow> jsnum" where
  "js_div (Num a) (Num b) =
     (if b = 0 then (if a = 0 then NaN else signed_inf (a < 0)) else Num (a / b))"
| "js_div NaN _ = NaN"
| "js_div _ NaN = NaN"
| "js_div (Num a) PInf = Num 0"
| "js_div (Num a) NInf = Num 0"
| "js_div PInf (Num b) = signed_inf (b < 0)"
| "js_div NInf (Num b) = signed_inf (0 \<le> b)"
| "js_div PInf PInf = NaN"
| "js_div PInf NInf = NaN"
| "js_div NInf PInf = NaN"
| "js_div NInf NInf = NaN"

text \<open>
  The \<^verbatim>\<open>%\<close> operator is the remainder of the truncating division: the result has the
  sign of the dividend.
\<close>

definition trunc :: "rat \<Rightarrow> int" where
  "trunc x = (if 0 \<le> x then \<lfloor>x\<rfloor> else \<lceil>x\<rceil>)"

fun js_mod :: "jsnum \<Rightarrow> jsnum \<Rightarrow> jsnum" where
  "js_mod (Num a) (Num b) = (if b = 0 then NaN else Num (a - b * of_int (trunc (a / b))))"
| "js_mod (Num a) PInf = Num a"
| "js_mod (Num a) NInf = Num a"
| "js_mod _ _ = NaN"

fun js_floor :: "jsnum \<Rightarrow> jsnum" where
  "js_floor (Num a) = Num (of_int \<lfloor>a\<rfloor>)"
| "js_floor x = x"

fun js_ceil :: "jsnum \<Rightarrow> jsnum" where
  "js_ceil (Num a) = Num (of_int \<lceil>a\<rceil>)"
| "js_ceil x = x"

text \<open>\<^verbatim>\<open>Math.round\<close> rounds to the nearest integer, a tie going up.\<close>

fun js_round :: "jsnum \<Rightarrow> jsnum" where
  "js_round (Num a) = Num (of_int \<lfloor>a + 1 / 2\<rfloor>)"
| "js_round x = x"

fun js_le :: "jsnum \<Rightarrow> jsnum \<Rightarrow> bool" where
  "js_le (Num a) (Num b) = (a \<le> b)"
| "js_le NaN _ = False"
| "js_le _ NaN = False"
| "js_le NInf _ = True"
| "js_le _ PInf = True"
| "js_le _ _ = False"

fun js_lt :: "jsnum \<Rightarrow> jsnum \<Rightarrow> bool" where
  "js_lt (Num a) (Num b) = (a < b)"
| "js_lt NaN _ = False"
| "js_lt _ NaN = False"
| "js_lt PInf _ = False"
| "js_lt _ NInf = False"
| "js_lt _ _ = True"

text \<open>\<^verbatim>\<open>Math.max\<close> of two numbers: NaN if either is.\<close>

fun js_max :: "jsnum \<Rightarrow> jsnum \<Rightarrow> jsnum" where
  "js_max NaN _ = NaN"
| "js_max _ NaN = NaN"
| "js_max a b = (if js_lt a b then b else a)"

section \<open>JavaScript strings\<close>

text \<open>
  A string is a list of code units; the model covers the code units below 256. The
  white space of \<^verbatim>\<open>trim\<close>, of \<^verbatim>\<open>\s\<close> and of the number parsers is the same set (white
  space and line terminators): tab, line feed, vertical tab, form feed, carriage return,
  space and no-break space. The dot of a regular expression matches every code unit
  that is not a line terminator.
\<close>

definition NL :: char where
  "NL = CHR 0x0A"

definition js_space :: "char \<Rightarrow> bool" where
  "js_space c = (c \<in> {CHR 0x09, CHR 0x0A, CHR 0x0B, CHR 0x0C, CHR 0x0D, CHR 0x20, CHR 0xA0})"

definition line_terminator :: "char \<Rightarrow> bool" where
  "line_terminator c = (c \<in> {CHR 0x0A, CHR 0x0D})"

definition trim :: "string \<Rightarrow> string" where
  "trim s = rev (dropWhile js_space (rev (dropWhile js_space s)))"

definition startsWith :: "string \<Rightarrow> string \<Rightarrow> bool" where
  "startsWith s p = (take (length p) s = p)"

fun js_includes :: "string \<Rightarrow> string \<Rightarrow> bool" where
  "js_includes [] p = (p = [])"
| "js_includes (x # xs) p = (startsWith (x # xs) p \<or> js_includes xs p)"

text \<open>
  \<^verbatim>\<open>s.split(sep)\<close> for a separator that is not empty: the pieces between the occurrences
  of the separator, found from left to right, so never fewer than one piece.
\<close>

function split :: "string \<Rightarrow> string \<Rightarrow> string list" where
  "split [] sep = [[]]"
| "split (x # xs) sep =
     (if sep \<noteq> [] \<and> startsWith (x # xs) sep then [] # split (drop (length sep) (x # xs)) sep
      else (case split xs sep of [] \<Rightarrow> [[x]] | w # ws \<Rightarrow> (x # w) # ws))"
  by pat_completeness auto
termination
  by (relation "measure (\<lambda>(s, sep). length s)") (auto simp: startsWith_def)

text \<open>\<^verbatim>\<open>xs.join(sep)\<close>.\<close>

fun join :: "string list \<Rightarrow> string \<Rightarrow> string" where
  "join [] sep = []"
| "join [x] sep = x"
| "join (x # y # ys) sep = x @ sep @ join (y # ys) sep"

definition padStart :: "string \<Rightarrow> nat \<Rightarrow> char \<Rightarrow> string" where
  "padStart s n c = replicate (n - length s) c @ s"

subsection \<open>Decimal digits\<close>

definition is_digit :: "char \<Rightarrow> bool" where
  "is_digit c = (48 \<le> (of_char c :: nat) \<and> (of_char c :: nat) \<le> 57)"

definition digit_val :: "char \<Rightarrow> nat" where
  "digit_val c = of_char c - 48"

definition digit_char :: "nat \<Rightarrow> char" where
  "digit_char d = char_of (48 + d)"

definition digits_val :: "string \<Rightarrow> nat" where
  "digits_val ds = foldl (\<lambda>a c. 10 * a + digit_val c) 0 ds"

fun show_nat :: "nat \<Rightarrow> string" where
  "show_nat n = (if n < 10 then [digit_char n] else show_nat (n div 10) @ [digit_char (n mod 10)])"

declare show_nat.simps [simp del]

text \<open>
  \<^verbatim>\<open>String(x)\<close> for a number that is an integer, an infinity or NaN, which is all that
  \<^verbatim>\<open>formatTimestamp\<close> and the chunk file name apply it to (the results of
  \<^verbatim>\<open>Math.floor\<close> and \<^verbatim>\<open>Math.round\<close>, and a loop counter). The decimal expansion of a
  value with a fraction, and the exponent notation from \<open>10\<^sup>2\<^sup>1\<close> on, are not modelled.
\<close>

fun js_String :: "jsnum \<Rightarrow> string" where
  "js_String (Num a) = (if a < 0 then ''-'' @ show_nat (nat (- \<lfloor>a\<rfloor>)) else show_nat (nat \<lfloor>a\<rfloor>))"
| "js_String PInf = ''Infinity''"
| "js_String NInf = ''-Infinity''"
| "js_String NaN = ''NaN''"

subsection \<open>\<^verbatim>\<open>parseInt\<close> and \<^verbatim>\<open>parseFloat\<close>\<close>

text \<open>An optional sign at the head of the text: whether it is a minus, and the rest.\<close>

fun take_sign :: "string \<Rightarrow> bool \<times> string" where
  "take_sign [] = (False, [])"
| "take_sign (c # cs) =
     (if c = CHR ''-'' then (True, cs) else if c = CHR ''+'' then (False, cs) else (False, c # cs))"

definition apply_sign :: "bool \<Rightarrow> rat \<Rightarrow> rat" where
  "apply_sign negative a = (if negative then - a else a)"

text \<open>
  \<^verbatim>\<open>parseInt(s, 10)\<close>: leading white space is skipped, a sign is read, and the longest
  run of decimal digits is the value; with no digit the result is NaN.
\<close>

definition js_parseInt :: "string \<Rightarrow> jsnum" where
  "js_parseInt s =
     (let (negative, u) = take_sign (dropWhile js_space s);
          ds = takeWhile is_digit u
      in if ds = [] then NaN else Num (apply_sign negative (of_nat (digits_val ds))))"

text \<open>
  The exponent part of a decimal literal, \<^verbatim>\<open>e\<close> or \<^verbatim>\<open>E\<close>, an optional sign and at
  least one digit; it is left out of the literal (exponent 0) when no digit follows.
\<close>

definition exponent_part :: "string \<Rightarrow> int" where
  "exponent_part r =
     (case r of
        [] \<Rightarrow> 0
      | c # cs \<Rightarrow>
          if c = CHR ''e'' \<or> c = CHR ''E'' then
            (let (negative, u) = take_sign cs; ds = takeWhile is_digit u
             in if ds = [] then 0
                else if negative then - int (digits_val ds) else int (digits_val ds))
          else 0)"

definition scale10 :: "rat \<Rightarrow> int \<Rightarrow> rat" where
  "scale10 m e = (if 0 \<le> e then m * 10 ^ nat e else m / 10 ^ nat (- e))"

text \<open>
  \<^verbatim>\<open>parseFloat(s)\<close>: leading white space is skipped and the longest prefix that is a
  decimal literal is the value: a sign, then \<^verbatim>\<open>Infinity\<close>, or digits with an optional
  fraction, or a dot with digits, each with an optional exponent. With no such prefix
  the result is NaN.
\<close>

definition js_parseFloat :: "string \<Rightarrow> jsnum" where
  "js_parseFloat s =
     (let (negative, u) = take_sign (dropWhile js_space s)
      in if startsWith u ''Infinity'' then signed_inf negative
         else
           (let ip = takeWhile is_digit u; r1 = dropWhile is_digit u
            in case r1 of
                 [] \<Rightarrow> if ip = [] then NaN else Num (apply_sign negative (of_nat (digits_val ip)))
               | c # r2 \<Rightarrow>
                   if c = CHR ''.'' then
                     (let fp = takeWhile is_digit r2; r3 = dropWhile is_digit r2
                      in if ip = [] \<and> fp = [] then NaN
                         else Num (apply_sign negative
                                (scale10 (of_nat (digits_val ip)
                                            + of_nat (digits_val fp) / 10 ^ length fp)
                                   (exponent_part r3))))
                   else if ip = [] then NaN
                   else Num (apply_sign negative
                          (scale10 (of_nat (digits_val ip)) (exponent_part (c # r2))))))"

section \<open>The timestamp codec\<close>

text \<open>
  \<^verbatim>\<open>parseTimestamp\<close>: the text is split at the colons; three fields are hours, minutes
  and seconds, two are minutes and seconds, and any other number of fields reads the
  first field alone as seconds.
\<close>

definition parseTimestamp :: "string \<Rightarrow> jsnum" where
  "parseTimestamp timestamp =
     (let parts = split timestamp '':''
      in if length parts = 3 then
           js_add (js_add (js_mul (js_parseInt (parts ! 0)) (Num 3600))
                          (js_mul (js_parseInt (parts ! 1)) (Num 60)))
                  (js_parseFloat (parts ! 2))
         else if length parts = 2 then
           js_add (js_add (js_mul (Num 0) (Num 3600))
                          (js_mul (js_parseInt (parts ! 0)) (Num 60)))
                  (js_parseFloat (parts ! 1))
         else
           js_add (js_add (js_mul (Num 0) (Num 3600)) (js_mul (Num 0) (Num 60)))
                  (js_parseFloat (parts ! 0)))"

definition formatTimestamp :: "jsnum \<Rightarrow> string" where
  "formatTimestamp totalSeconds =
     (let hours = js_floor (js_div totalSeconds (Num 3600));
          minutes = js_floor (js_div (js_mod totalSeconds (Num 3600)) (Num 60));
          seconds = js_floor (js_mod totalSeconds (Num 60));
          ms = js_round (js_mul (js_mod totalSeconds (Num 1)) (Num 1000))
      in padStart (js_String hours) 2 (CHR ''0'') @ '':''
         @ padStart (js_String minutes) 2 (CHR ''0'') @ '':''
         @ padStart (js_String seconds) 2 (CHR ''0'') @ ''.''
         @ padStart (js_String ms) 3 (CHR ''0''))"

section \<open>The subtitle document engine\<close>

text \<open>
  A cue (\<^verbatim>\<open>VTTCue\<close>): the fields \<^verbatim>\<open>start\<close>, \<^verbatim>\<open>end\<close>, \<^verbatim>\<open>speaker\<close> and \<^verbatim>\<open>text\<close>. A
  speaker that is \<^verbatim>\<open>null\<close> or absent is \<open>None\<close>.
\<close>

record VTTCue =
  cue_start :: jsnum
  cue_end :: jsnum
  cue_speaker :: "string option"
  cue_text :: string

text \<open>A document to merge (\<^verbatim>\<open>VTTChunk\<close>): the fields \<^verbatim>\<open>vtt\<close> and \<^verbatim>\<open>offset\<close>.\<close>

record VTTChunk =
  vtt :: string
  vtt_offset :: jsnum

text \<open>
  The rests of a text after \<open>k\<close> of its leading white space characters, from the whole
  run down to \<open>least\<close> of them: the order in which a greedy \<^verbatim>\<open>\s*\<close> (\<open>least = 0\<close>) or
  \<^verbatim>\<open>\s+\<close> (\<open>least = 1\<close>) offers them to the rest of a pattern.
\<close>

definition after_spaces :: "nat \<Rightarrow> string \<Rightarrow> string list" where
  "after_spaces least s =
     map (\<lambda>k. drop k s) (rev [least ..< Suc (length (takeWhile js_space s))])"

text \<open>The first alternative that matches.\<close>

fun first_match :: "('a \<Rightarrow> 'b option) \<Rightarrow> 'a list \<Rightarrow> 'b option" where
  "first_match f [] = None"
| "first_match f (x # xs) = (case f x of Some y \<Rightarrow> Some y | None \<Rightarrow> first_match f xs)"

text \<open>
  \<^verbatim>\<open>text.match(/^<v\s+([^>]+)>(.*)/)\<close>, as the pair of its two groups. The name
  \<^verbatim>\<open>([^>]+)\<close> runs to the first \<^verbatim>\<open>>\<close> and cannot be empty (a shorter name would be
  followed by a character of the name, not by \<^verbatim>\<open>>\<close>); the second group stops at the
  first line terminator.
\<close>

definition speaker_name :: "string \<Rightarrow> (string \<times> string) option" where
  "speaker_name p =
     (let name = takeWhile (\<lambda>c. c \<noteq> CHR ''>'') p;
          close = dropWhile (\<lambda>c. c \<noteq> CHR ''>'') p
      in if name = [] \<or> close = [] then None
         else Some (name, takeWhile (\<lambda>c. \<not> line_terminator c) (tl close)))"

definition speakerMatch :: "string \<Rightarrow> (string \<times> string) option" where
  "speakerMatch text =
     (if startsWith text ''<v'' then first_match speaker_name (after_spaces 1 (drop 2 text))
      else None)"

text \<open>
  The inner loop of \<^verbatim>\<open>parseVTT\<close>, over the lines from index \<^verbatim>\<open>i\<close> on: it stops at the
  first line that is blank after trimming or at the end of the input, and returns the
  text lines, the speaker and the lines that are left.
\<close>

definition push_text :: "string \<Rightarrow> string list \<Rightarrow> string list" where
  "push_text t textLines = (if t \<noteq> [] then textLines @ [t] else textLines)"

fun read_text :: "string list \<Rightarrow> string list \<Rightarrow> string option
    \<Rightarrow> string list \<times> string option \<times> string list" where
  "read_text [] textLines speaker = (textLines, speaker, [])"
| "read_text (l # ls) textLines speaker =
     (if trim l \<noteq> [] then
        (case speakerMatch (trim l) of
           Some (name, t) \<Rightarrow> read_text ls (push_text t textLines) (Some name)
         | None \<Rightarrow> read_text ls (push_text (trim l) textLines) speaker)
      else (textLines, speaker, l # ls))"

lemma read_text_length:
  "read_text ls textLines speaker = (ts, sp, rest) \<Longrightarrow> length rest \<le> length ls"
proof (induction ls arbitrary: textLines speaker)
  case Nil
  then show ?case by simp
next
  case (Cons l ls)
  show ?case
  proof (cases "trim l = []")
    case True
    with Cons.prems show ?thesis by auto
  next
    case False
    with Cons.prems obtain tl' sp' where "read_text ls tl' sp' = (ts, sp, rest)"
      by (auto split: option.splits)
    from Cons.IH [OF this] show ?thesis by simp
  qed
qed

text \<open>
  The main loop of \<^verbatim>\<open>parseVTT\<close>. A line with the arrow starts a block; the index is
  advanced once more after the block, past the blank line that ended it. Any other line
  is skipped.
\<close>

function parse_cues :: "string list \<Rightarrow> VTTCue list \<Rightarrow> VTTCue list" where
  "parse_cues [] cues = cues"
| "parse_cues (l # ls) cues =
     (if js_includes (trim l) ''-->'' then
        (case read_text ls [] None of
           (textLines, speaker, rest) \<Rightarrow>
             parse_cues (drop 1 rest)
               (if textLines \<noteq> [] then
                  cues @ [\<lparr>cue_start = parseTimestamp (trim (split (trim l) ''-->'' ! 0)),
                            cue_end = parseTimestamp (trim (split (trim l) ''-->'' ! 1)),
                            cue_speaker = speaker,
                            cue_text = join textLines '' ''\<rparr>]
                else cues))
      else parse_cues ls cues)"
  by pat_completeness auto
termination
  by (relation "measure (\<lambda>(ls, cues). length ls)")
     (auto dest!: read_text_length [OF sym] simp: less_Suc_eq_le)

definition skip_header :: "string list \<Rightarrow> string list" where
  "skip_header lines = dropWhile (\<lambda>l. \<not> js_includes l ''-->'') lines"

definition parseVTT :: "string \<Rightarrow> VTTCue list" where
  "parseVTT vttContent = parse_cues (skip_header (split vttContent [NL])) []"

text \<open>One turn of the loop of \<^verbatim>\<open>serializeVTT\<close>: what a cue appends to the document.\<close>

definition serialize_cue :: "VTTCue \<Rightarrow> string" where
  "serialize_cue cue =
     formatTimestamp (cue_start cue) @ '' --> '' @ formatTimestamp (cue_end cue) @ [NL]
     @ (case cue_speaker cue of
          None \<Rightarrow> cue_text cue @ [NL, NL]
        | Some sp \<Rightarrow>
            if sp \<noteq> [] then ''<v '' @ sp @ ''>'' @ cue_text cue @ [NL, NL]
            else cue_text cue @ [NL, NL])"

definition serializeVTT :: "VTTCue list \<Rightarrow> string" where
  "serializeVTT cues = foldl (\<lambda>doc cue. doc @ serialize_cue cue) (''WEBVTT'' @ [NL, NL]) cues"

text \<open>
  \<^verbatim>\<open>allCues.sort((a, b) => a.start - b.start)\<close>. The sort of an array is stable, and a
  comparison that yields NaN counts as 0. It is modelled as the stable insertion sort,
  which is what every engine returns when the comparisons are consistent; with NaN
  among the start times they are not, and the order is then the engine's choice.
\<close>

definition compare_start :: "VTTCue \<Rightarrow> VTTCue \<Rightarrow> jsnum" where
  "compare_start a b = (case js_sub (cue_start a) (cue_start b) of NaN \<Rightarrow> Num 0 | v \<Rightarrow> v)"

fun insert_cue :: "VTTCue \<Rightarrow> VTTCue list \<Rightarrow> VTTCue list" where
  "insert_cue a [] = [a]"
| "insert_cue a (b # bs) =
     (if js_lt (Num 0) (compare_start a b) then b # insert_cue a bs else a # b # bs)"

definition sort_by_start :: "VTTCue list \<Rightarrow> VTTCue list" where
  "sort_by_start cues = foldr insert_cue cues []"

definition offset_cue :: "jsnum \<Rightarrow> VTTCue \<Rightarrow> VTTCue" where
  "offset_cue off cue =
     \<lparr>cue_start = js_add (cue_start cue) off,
      cue_end = js_add (cue_end cue) off,
      cue_speaker = cue_speaker cue,
      cue_text = cue_text cue\<rparr>"

text \<open>The cues of all documents, each shifted by its document's offset, before the sort.\<close>

definition merged_cues :: "VTTChunk list \<Rightarrow> VTTCue list" where
  "merged_cues chunks =
     concat (map (\<lambda>chunk. map (offset_cue (vtt_offset chunk)) (parseVTT (vtt chunk))) chunks)"

definition mergeVTT :: "VTTChunk list \<Rightarrow> string" where
  "mergeVTT chunks = serializeVTT (sort_by_start (merged_cues chunks))"

section \<open>The chunk planner\<close>

text \<open>
  A chunk (\<^verbatim>\<open>AudioChunk\<close>): the fields \<^verbatim>\<open>file\<close>, \<^verbatim>\<open>offset\<close> and \<^verbatim>\<open>duration\<close>.
\<close>

record AudioChunk =
  chunk_file :: string
  chunk_offset :: jsnum
  chunk_duration :: jsnum

text \<open>\<^verbatim>\<open>execSync\<close> throws when the command it runs fails.\<close>

datatype error = ExecError

text \<open>
  The loop of \<^verbatim>\<open>splitAudio\<close>. The parameter \<open>exec_ok i\<close> tells whether the
  \<^verbatim>\<open>ffmpeg\<close> command of turn \<open>i\<close> returns normally. The bound \<^verbatim>\<open>numChunks\<close> is a
  number and may be infinite, and then the loop does not end: the result \<open>None\<close>.
\<close>

partial_function (option) splitAudio_loop ::
  "(nat \<Rightarrow> bool) \<Rightarrow> jsnum \<Rightarrow> jsnum \<Rightarrow> jsnum \<Rightarrow> nat \<Rightarrow> AudioChunk list
    \<Rightarrow> (error + AudioChunk list) option" where
  "splitAudio_loop exec_ok totalDuration numChunks chunkDuration i chunks =
     (if js_lt (Num (of_nat i)) numChunks then
        (if exec_ok i then
           splitAudio_loop exec_ok totalDuration numChunks chunkDuration (Suc i)
             (chunks @
              [\<lparr>chunk_file =
                  ''chunk_'' @ padStart (js_String (Num (of_nat (i + 1)))) 2 (CHR ''0'') @ ''.ogg'',
                chunk_offset = js_mul (Num (of_nat i)) chunkDuration,
                chunk_duration =
                  (if js_lt (Num (of_nat i)) (js_sub numChunks (Num 1)) then chunkDuration
                   else js_sub totalDuration (js_mul (Num (of_nat i)) chunkDuration))\<rparr>])
         else Some (Inl ExecError))
      else Some (Inr chunks))"

declare splitAudio_loop.simps [code]

definition splitAudio ::
  "(nat \<Rightarrow> bool) \<Rightarrow> string \<Rightarrow> jsnum \<Rightarrow> jsnum \<Rightarrow> (error + AudioChunk list) option" where
  "splitAudio exec_ok audioFile totalDuration maxChunkDuration =
     (if js_le totalDuration maxChunkDuration then
        Some (Inr [\<lparr>chunk_file = audioFile, chunk_offset = Num 0,
                    chunk_duration = totalDuration\<rparr>])
      else
        (let numChunks = js_ceil (js_div totalDuration maxChunkDuration);
             chunkDuration = js_div totalDuration numChunks
         in splitAudio_loop exec_ok totalDuration numChunks chunkDuration 0 []))"

definition calculateChunkCount :: "jsnum \<Rightarrow> jsnum \<Rightarrow> jsnum" where
  "calculateChunkCount totalDuration maxChunkDuration =
     js_ceil (js_div totalDuration maxChunkDuration)"

section \<open>The free-text transcript parser\<close>

text \<open>
  The end of
  \<^verbatim>\<open>/^\[\s*(\d{1,2}):(\d{2})(?::(\d{2}))?\s*\]\s*(?:([^:]+):\s*)?(.+)$/\<close>, from
  \<^verbatim>\<open>(.+)$\<close> on: the rest of the line, not empty and free of line terminators.
\<close>

definition line_rest :: "string \<Rightarrow> string option" where
  "line_rest t = (if t \<noteq> [] \<and> (\<forall>c \<in> set t. \<not> line_terminator c) then Some t else None)"

text \<open>
  The optional group \<^verbatim>\<open>(?:([^:]+):\s*)?\<close> followed by \<^verbatim>\<open>(.+)$\<close>, at a position \<open>p\<close> of
  the line. The group is tried first: a speaker that runs to the first colon and is not
  empty, white space, and the rest of the line. Without the group the rest of the line
  starts at \<open>p\<close>.
\<close>

definition speaker_and_text :: "string \<Rightarrow> (string option \<times> string) option" where
  "speaker_and_text p =
     (let name = takeWhile (\<lambda>c. c \<noteq> CHR '':'') p;
          colon = dropWhile (\<lambda>c. c \<noteq> CHR '':'') p;
          with_group =
            (if name = [] \<or> colon = [] then None
             else first_match line_rest (after_spaces 0 (tl colon)))
      in case with_group of
           Some t \<Rightarrow> Some (Some name, t)
         | None \<Rightarrow> (case line_rest p of Some t \<Rightarrow> Some (None, t) | None \<Rightarrow> None))"

text \<open>
  The whole pattern, as its five groups. The hours field has one or two digits and the
  colon next to it; the minutes field has two digits; the seconds group is taken when a
  colon and two digits follow (without it the colon could be matched by nothing else);
  then white space and the closing bracket.
\<close>

definition timestampMatch ::
  "string \<Rightarrow> (string \<times> string \<times> string option \<times> string option \<times> string) option" where
  "timestampMatch line =
     (case line of
        [] \<Rightarrow> None
      | c # r0 \<Rightarrow>
          if c \<noteq> CHR ''['' then None
          else
            (let r1 = dropWhile js_space r0;
                 part1 = takeWhile is_digit r1;
                 r2 = dropWhile is_digit r1
             in if \<not> (1 \<le> length part1 \<and> length part1 \<le> 2 \<and> startsWith r2 '':'') then None
                else
                  (let part2 = take 2 (tl r2); r3 = drop 2 (tl r2)
                   in if \<not> (length part2 = 2 \<and> (\<forall>d \<in> set part2. is_digit d)) then None
                      else
                        (let has3 = (startsWith r3 '':'' \<and> length (take 2 (tl r3)) = 2
                                       \<and> (\<forall>d \<in> set (take 2 (tl r3)). is_digit d));
                             part3 = (if has3 then Some (take 2 (tl r3)) else None);
                             r4 = (if has3 then drop 3 r3 else r3);
                             r5 = dropWhile js_space r4
                         in if \<not> startsWith r5 '']'' then None
                            else
                              (case first_match speaker_and_text (after_spaces 0 (tl r5)) of
                                 None \<Rightarrow> None
                               | Some (speaker, lineText) \<Rightarrow>
                                   Some (part1, part2, part3, speaker, lineText))))))"

text \<open>
  \<^verbatim>\<open>.replace(/^\*{1,2}|^\_{1,2}|\*{1,2}$|\_{1,2}$/g, '')\<close>: the length of the match at
  a position (0 for none), the alternatives in their order, and the scan from left to
  right that removes every match.
\<close>

definition markdown_at :: "bool \<Rightarrow> string \<Rightarrow> nat" where
  "markdown_at at_start s =
     (if at_start \<and> startsWith s ''*'' then (if startsWith s ''**'' then 2 else 1)
      else if at_start \<and> startsWith s ''_'' then (if startsWith s ''__'' then 2 else 1)
      else if s = ''**'' then 2 else if s = ''*'' then 1
      else if s = ''__'' then 2 else if s = ''_'' then 1
      else 0)"

function strip_markdown :: "bool \<Rightarrow> string \<Rightarrow> string" where
  "strip_markdown at_start [] = []"
| "strip_markdown at_start (c # cs) =
     (if 0 < markdown_at at_start (c # cs)
      then strip_markdown False (drop (markdown_at at_start (c # cs)) (c # cs))
      else c # strip_markdown False cs)"
  by pat_completeness auto
termination
  by (relation "measure (\<lambda>(b, s). length s)") auto

text \<open>\<^verbatim>\<open>text.split(/\s+/).length\<close>: one more than the number of runs of white space.\<close>

fun space_runs :: "bool \<Rightarrow> string \<Rightarrow> nat" where
  "space_runs in_run [] = 0"
| "space_runs in_run (c # cs) =
     (if js_space c then (if in_run then 0 else 1) + space_runs True cs
      else space_runs False cs)"

definition wordCount :: "string \<Rightarrow> nat" where
  "wordCount t = Suc (space_runs False t)"

text \<open>An assignment to a field of the last cue, \<^verbatim>\<open>cues[cues.length - 1]\<close>.\<close>

definition update_last :: "(VTTCue \<Rightarrow> VTTCue) \<Rightarrow> VTTCue list \<Rightarrow> VTTCue list" where
  "update_last f cues = (if cues = [] then [] else butlast cues @ [f (last cues)])"

text \<open>
  \<^verbatim>\<open>speaker?.trim() || null\<close>, then the markdown removed and trimmed again when a
  speaker is left. The result may be the empty string, which the uses treat as no
  speaker.
\<close>

definition cleanSpeaker :: "string option \<Rightarrow> string option" where
  "cleanSpeaker speaker =
     (case speaker of
        None \<Rightarrow> None
      | Some sp \<Rightarrow> if trim sp = [] then None else Some (trim (strip_markdown True (trim sp))))"

text \<open>One turn of the loop of \<^verbatim>\<open>parseGeminiTranscript\<close> over the lines.\<close>

definition gemini_line :: "VTTCue list \<Rightarrow> string \<Rightarrow> VTTCue list" where
  "gemini_line cues line =
     (case timestampMatch line of
        Some (part1, part2, part3, speaker, lineText) \<Rightarrow>
          (let p1 = js_parseInt part1;
               p2 = js_parseInt part2;
               hours = (case part3 of Some _ \<Rightarrow> p1 | None \<Rightarrow> Num 0);
               minutes = (case part3 of Some _ \<Rightarrow> p2 | None \<Rightarrow> p1);
               seconds = (case part3 of Some p \<Rightarrow> js_parseInt p | None \<Rightarrow> p2);
               startTime = js_add (js_add (js_mul hours (Num 3600)) (js_mul minutes (Num 60))) seconds;
               cues1 = (if 0 < length cues then update_last (\<lambda>cue. cue\<lparr>cue_end := startTime\<rparr>) cues
                        else cues)
           in case cleanSpeaker speaker of
                Some cs \<Rightarrow>
                  if cs \<noteq> [] \<and> 30 < length cs then
                    cues1 @ [\<lparr>cue_start = startTime, cue_end = js_add startTime (Num 30),
                               cue_speaker = None, cue_text = trim (cs @ '': '' @ lineText)\<rparr>]
                  else
                    cues1 @ [\<lparr>cue_start = startTime, cue_end = js_add startTime (Num 30),
                               cue_speaker = (if cs \<noteq> [] then Some cs else None),
                               cue_text = trim lineText\<rparr>]
              | None \<Rightarrow>
                  cues1 @ [\<lparr>cue_start = startTime, cue_end = js_add startTime (Num 30),
                             cue_speaker = None, cue_text = trim lineText\<rparr>])
      | None \<Rightarrow>
          if 0 < length cues \<and> trim line \<noteq> [] then
            update_last (\<lambda>cue. cue\<lparr>cue_text := cue_text cue @ '' '' @ trim line\<rparr>) cues
          else if trim line \<noteq> [] \<and> length cues = 0 then
            cues @ [\<lparr>cue_start = Num 0, cue_end = Num 30, cue_speaker = None,
                      cue_text = trim line\<rparr>]
          else cues)"

text \<open>The end of the last cue, estimated from its number of words.\<close>

definition adjust_last :: "VTTCue list \<Rightarrow> VTTCue list" where
  "adjust_last cues =
     (if 0 < length cues then
        update_last
          (\<lambda>lastCue. lastCue\<lparr>cue_end :=
             js_add (cue_start lastCue)
               (js_max (Num 5)
                  (js_ceil (js_div (Num (of_nat (wordCount (cue_text lastCue)))) (Num (5 / 2)))))\<rparr>)
          cues
      else cues)"

definition parseGeminiTranscript :: "string \<Rightarrow> VTTCue list" where
  "parseGeminiTranscript text =
     adjust_last (foldl gemini_line [] (filter (\<lambda>line. trim line \<noteq> []) (split text [NL])))"

section \<open>Vocabulary of the properties\<close>

subsection \<open>Plans\<close>

text \<open>Every \<^verbatim>\<open>ffmpeg\<close> command succeeds.\<close>

definition always_ok :: "nat \<Rightarrow> bool" where
  "always_ok i = True"




subsection \<open>Cue blocks\<close>

text \<open>
  The end that \<^verbatim>\<open>parseGeminiTranscript\<close> estimates for a last cue that starts at 0 and
  has the text \<open>t\<close>.
\<close>

definition estimated_end :: "string \<Rightarrow> jsnum" where
  "estimated_end t =
     js_add (Num 0) (js_max (Num 5) (js_ceil (js_div (Num (of_nat (wordCount t))) (Num (5 / 2)))))"







subsection \<open>Times and round trips\<close>














subsection \<open>Merged documents\<close>

text \<open>The order of two cues by their start times, as \<^verbatim>\<open><=\<close> compares numbers.\<close>

definition start_le :: "VTTCue \<Rightarrow> VTTCue \<Rightarrow> bool" where
  "start_le a b = js_le (cue_start a) (cue_start b)"

text \<open>Documents of one cue, and a document whose first timestamp line is not numeric.\<close>

definition doc_0_2 :: string where
  "doc_0_2 = join [''WEBVTT'', '''', ''00:00:00.000 --> 00:00:02.000'', ''Hello'', ''''] [NL]"

definition doc_10_12 :: string where
  "doc_10_12 = join [''WEBVTT'', '''', ''00:00:10.000 --> 00:00:12.000'', ''Later'', ''''] [NL]"

definition doc_1_3 :: string where
  "doc_1_3 = join [''WEBVTT'', '''', ''00:00:01.000 --> 00:00:03.000'', ''Earlier'', ''''] [NL]"

definition doc_bad_stamp :: string where
  "doc_bad_stamp = join [''WEBVTT'', '''', ''soon --> later'', ''Hello'', '''',
                         ''00:00:01.000 --> 00:00:03.000'', ''World'', ''''] [NL]"

definition doc_bad_between :: string where
  "doc_bad_between = join [''WEBVTT'', '''', ''00:00:05.000 --> 00:00:06.000'', ''Five'', '''',
                           ''soon --> later'', ''Hello'', '''',
                           ''00:00:01.000 --> 00:00:03.000'', ''One'', ''''] [NL]"

section \<open>The chunk planner: count and coverage\<close>








section \<open>The chunk planner at duration zero\<close>

text \<open>
  Claim C5, as the program has it. For a positive maximal chunk duration the count
  formula \<^verbatim>\<open>calculateChunkCount\<close> gives 0 for a recording of duration 0, but the
  planner \<^verbatim>\<open>splitAudio\<close> returns one chunk, of offset 0 and duration 0: its guard
  \<^verbatim>\<open>totalDuration <= maxChunkDuration\<close> holds and the count formula is not reached.
\<close>

theorem splitAudio_zero_duration:
  "0 < m \<Longrightarrow>
     splitAudio exec_ok audioFile (Num 0) (Num m)
       = Some (Inr [\<lparr>chunk_file = audioFile, chunk_offset = Num 0, chunk_duration = Num 0\<rparr>])
     \<and> calculateChunkCount (Num 0) (Num m) = Num 0"
  by (simp add: splitAudio_def calculateChunkCount_def)

theorem splitAudio_zero_duration_witness:
  "(0::rat) < 1000
   \<and> splitAudio always_ok ''a.wav'' (Num 0) (Num 1000)
       = Some (Inr [\<lparr>chunk_file = ''a.wav'', chunk_offset = Num 0, chunk_duration = Num 0\<rparr>])
   \<and> calculateChunkCount (Num 0) (Num 1000) = Num 0"
  using splitAudio_zero_duration [of 1000 always_ok "''a.wav''"] by simp

text \<open>
  The claim as stated, that planning a recording of duration 0 yields no chunk, fails:
  the plan for duration 0 and maximum 1000 has one chunk.
\<close>

theorem splitAudio_zero_duration_counterexample:
  "splitAudio always_ok ''a.wav'' (Num 0) (Num 1000) \<noteq> Some (Inr [])
   \<and> splitAudio always_ok ''a.wav'' (Num 0) (Num 1000)
       = Some (Inr [\<lparr>chunk_file = ''a.wav'', chunk_offset = Num 0, chunk_duration = Num 0\<rparr>])"
  by (simp add: splitAudio_def)

section \<open>The free-text parser on lines without a timestamp\<close>

lemma join_merge_head: "join ((a @ sep @ b) # bs) sep = join (a # b # bs) sep"
  by (cases bs) simp_all

lemma update_last_snoc: "update_last f (cues @ [c]) = cues @ [f c]"
  by (simp add: update_last_def)

lemma gemini_line_continue:
  assumes "timestampMatch line = None" and "trim line \<noteq> []"
  shows "gemini_line (cues @ [c]) line = cues @ [c\<lparr>cue_text := cue_text c @ '' '' @ trim line\<rparr>]"
  using assms by (simp add: gemini_line_def update_last_snoc del: append_assoc)

lemma gemini_line_first:
  assumes "timestampMatch line = None" and "trim line \<noteq> []"
  shows "gemini_line [] line
    = [\<lparr>cue_start = Num 0, cue_end = Num 30, cue_speaker = None, cue_text = trim line\<rparr>]"
  using assms by (simp add: gemini_line_def)

lemma gemini_fold_continue:
  "\<forall>l \<in> set ls. timestampMatch l = None \<and> trim l \<noteq> [] \<Longrightarrow>
     foldl gemini_line [c] ls = [c\<lparr>cue_text := join (cue_text c # map trim ls) '' ''\<rparr>]"
proof (induction ls arbitrary: c)
  case Nil
  show ?case by simp
next
  case (Cons l ls)
  then have l: "timestampMatch l = None" "trim l \<noteq> []"
    and rest: "\<forall>l \<in> set ls. timestampMatch l = None \<and> trim l \<noteq> []" by simp_all
  have "gemini_line ([] @ [c]) l = [] @ [c\<lparr>cue_text := cue_text c @ '' '' @ trim l\<rparr>]"
    by (rule gemini_line_continue [OF l])
  then have "foldl gemini_line [c] (l # ls)
      = foldl gemini_line [c\<lparr>cue_text := cue_text c @ '' '' @ trim l\<rparr>] ls" by simp
  also have "\<dots> = [c\<lparr>cue_text := join ((cue_text c @ '' '' @ trim l) # map trim ls) '' ''\<rparr>]"
    using Cons.IH [OF rest, of "c\<lparr>cue_text := cue_text c @ '' '' @ trim l\<rparr>"] by simp
  finally show ?case by (simp only: join_merge_head list.map)
qed

lemma gemini_unstructured:
  assumes "\<forall>line \<in> set (split text [NL]). timestampMatch line = None"
  shows "parseGeminiTranscript text =
     (case filter (\<lambda>line. trim line \<noteq> []) (split text [NL]) of
        [] \<Rightarrow> []
      | l # ls \<Rightarrow> [\<lparr>cue_start = Num 0, cue_end = estimated_end (join (map trim (l # ls)) '' ''),
                    cue_speaker = None, cue_text = join (map trim (l # ls)) '' ''\<rparr>])"
proof (cases "filter (\<lambda>line. trim line \<noteq> []) (split text [NL])")
  case Nil
  then show ?thesis by (simp add: parseGeminiTranscript_def adjust_last_def)
next
  case (Cons l ls)
  have "set (filter (\<lambda>line. trim line \<noteq> []) (split text [NL])) \<subseteq> set (split text [NL])"
    and "\<forall>x \<in> set (filter (\<lambda>line. trim line \<noteq> []) (split text [NL])). trim x \<noteq> []"
    by simp_all
  then have "set (l # ls) \<subseteq> set (split text [NL])" and "\<forall>x \<in> set (l # ls). trim x \<noteq> []"
    unfolding Cons by blast+
  with assms have l: "timestampMatch l = None" "trim l \<noteq> []"
    and rest: "\<forall>l \<in> set ls. timestampMatch l = None \<and> trim l \<noteq> []" by auto
  have "foldl gemini_line [] (l # ls)
      = foldl gemini_line [\<lparr>cue_start = Num 0, cue_end = Num 30, cue_speaker = None, cue_text = trim l\<rparr>] ls"
    by (simp add: gemini_line_first [OF l])
  also have "\<dots> = [\<lparr>cue_start = Num 0, cue_end = Num 30, cue_speaker = None,
                     cue_text = join (map trim (l # ls)) '' ''\<rparr>]"
    by (simp add: gemini_fold_continue [OF rest])
  finally show ?thesis
    using Cons by (simp add: parseGeminiTranscript_def adjust_last_def update_last_def estimated_end_def)
qed


text \<open>
  Claim C9. A line that is not blank and does not match the bracketed-timestamp pattern
  starts an implicit cue at time 0 when there is no cue yet, and is otherwise appended,
  after a space, to the text of the last cue. A text none of whose lines matches the
  pattern yields at most one cue, which starts at 0, has no speaker, and holds the
  trimmed non-blank lines joined by spaces. The parser has no failing branch: the last
  cue is only read when there is one, and the text group of the pattern is never
  undefined.
\<close>

theorem gemini_free_text:
  "(timestampMatch line = None \<and> trim line \<noteq> [] \<longrightarrow>
      gemini_line [] line
        = [\<lparr>cue_start = Num 0, cue_end = Num 30, cue_speaker = None, cue_text = trim line\<rparr>]
      \<and> gemini_line (cues @ [c]) line
        = cues @ [c\<lparr>cue_text := cue_text c @ '' '' @ trim line\<rparr>])
   \<and> ((\<forall>l \<in> set (split text [NL]). timestampMatch l = None) \<longrightarrow>
        length (parseGeminiTranscript text) \<le> 1
        \<and> (\<forall>cue \<in> set (parseGeminiTranscript text).
              cue_start cue = Num 0 \<and> cue_speaker cue = None
              \<and> cue_text cue
                  = join (map trim (filter (\<lambda>l. trim l \<noteq> []) (split text [NL]))) '' ''))"
proof -
  have "length (parseGeminiTranscript text) \<le> 1
        \<and> (\<forall>cue \<in> set (parseGeminiTranscript text).
              cue_start cue = Num 0 \<and> cue_speaker cue = None
              \<and> cue_text cue
                  = join (map trim (filter (\<lambda>l. trim l \<noteq> []) (split text [NL]))) '' '')"
    if "\<forall>l \<in> set (split text [NL]). timestampMatch l = None"
    using gemini_unstructured [OF that] by (simp split: list.splits)
  then show ?thesis
    using gemini_line_first gemini_line_continue by blast
qed


theorem gemini_free_text_witness:
  "timestampMatch ''and more'' = None \<and> trim ''and more'' \<noteq> []
   \<and> gemini_line [] ''and more''
       = [\<lparr>cue_start = Num 0, cue_end = Num 30, cue_speaker = None, cue_text = trim ''and more''\<rparr>]
   \<and> gemini_line ([] @ [\<lparr>cue_start = Num 7, cue_end = Num 37, cue_speaker = Some ''Ann'', cue_text = ''Hello''\<rparr>]) ''and more''
       = [] @ [\<lparr>cue_start = Num 7, cue_end = Num 37, cue_speaker = Some ''Ann'', cue_text = ''Hello''\<rparr>
                 \<lparr>cue_text := cue_text \<lparr>cue_start = Num 7, cue_end = Num 37, cue_speaker = Some ''Ann'', cue_text = ''Hello''\<rparr> @ '' '' @ trim ''and more''\<rparr>]
   \<and> split (''no stamps'' @ [NL] @ ''anywhere'') [NL] = [''no stamps'', ''anywhere'']
   \<and> timestampMatch ''no stamps'' = None \<and> timestampMatch ''anywhere'' = None
   \<and> length (parseGeminiTranscript (''no stamps'' @ [NL] @ ''anywhere'')) \<le> 1
   \<and> parseGeminiTranscript (''no stamps'' @ [NL] @ ''anywhere'')
       = [\<lparr>cue_start = Num 0, cue_end = Num 5, cue_speaker = None, cue_text = ''no stamps anywhere''\<rparr>]"
proof -
  have m: "timestampMatch ''and more'' = None" by code_simp
  have t: "trim ''and more'' \<noteq> []" by code_simp
  have u: "\<forall>l \<in> set (split (''no stamps'' @ [NL] @ ''anywhere'') [NL]). timestampMatch l = None"
    by code_simp
  have p: "parseGeminiTranscript (''no stamps'' @ [NL] @ ''anywhere'')
       = [\<lparr>cue_start = Num 0, cue_end = Num 5, cue_speaker = None, cue_text = ''no stamps anywhere''\<rparr>]"
    by code_simp
  note th = gemini_free_text [of "''and more''" "[]"
      "\<lparr>cue_start = Num 7, cue_end = Num 37, cue_speaker = Some ''Ann'', cue_text = ''Hello''\<rparr>"
      "''no stamps'' @ [NL] @ ''anywhere''"]
  from th m t have a: "gemini_line [] ''and more''
       = [\<lparr>cue_start = Num 0, cue_end = Num 30, cue_speaker = None, cue_text = trim ''and more''\<rparr>]
   \<and> gemini_line ([] @ [\<lparr>cue_start = Num 7, cue_end = Num 37, cue_speaker = Some ''Ann'', cue_text = ''Hello''\<rparr>]) ''and more''
       = [] @ [\<lparr>cue_start = Num 7, cue_end = Num 37, cue_speaker = Some ''Ann'', cue_text = ''Hello''\<rparr>
                 \<lparr>cue_text := cue_text \<lparr>cue_start = Num 7, cue_end = Num 37, cue_speaker = Some ''Ann'', cue_text = ''Hello''\<rparr> @ '' '' @ trim ''and more''\<rparr>]"
    by blast
  from th u have b: "length (parseGeminiTranscript (''no stamps'' @ [NL] @ ''anywhere'')) \<le> 1"
    by blast
  have s: "split (''no stamps'' @ [NL] @ ''anywhere'') [NL] = [''no stamps'', ''anywhere'']"
    by code_simp
  have n: "timestampMatch ''no stamps'' = None" "timestampMatch ''anywhere'' = None"
    by code_simp+
  from m t a s n b p show ?thesis by blast
qed

section \<open>The document parser, block by block\<close>

lemma split_not_Nil: "split s sep \<noteq> []"
  by (induction s sep rule: split.induct) (auto split: list.splits)




lemma js_includes_iff: "js_includes s p \<longleftrightarrow> (\<exists>a b. s = a @ p @ b)"
proof (induction s)
  case Nil
  show ?case by simp
next
  case (Cons x xs)
  show ?case
  proof
    assume "js_includes (x # xs) p"
    then consider "startsWith (x # xs) p" | "js_includes xs p" by auto
    then show "\<exists>a b. x # xs = a @ p @ b"
    proof cases
      case 1
      then have "x # xs = [] @ p @ drop (length p) (x # xs)"
        unfolding startsWith_def by (metis append_Nil append_take_drop_id)
      then show ?thesis by blast
    next
      case 2
      with Cons obtain a b where "xs = a @ p @ b" by blast
      then have "x # xs = (x # a) @ p @ b" by simp
      then show ?thesis by blast
    qed
  next
    assume "\<exists>a b. x # xs = a @ p @ b"
    then obtain a b where ab: "x # xs = a @ p @ b" by blast
    show "js_includes (x # xs) p"
    proof (cases a)
      case Nil
      with ab have "startsWith (x # xs) p" by (simp add: startsWith_def)
      then show ?thesis by simp
    next
      case (Cons y ys)
      with ab have "xs = ys @ p @ b" by simp
      with Cons.IH show ?thesis by auto
    qed
  qed
qed

lemma js_includes_rev: "js_includes (rev s) (rev p) = js_includes s p"
proof -
  have "(\<exists>a b. rev s = a @ rev p @ b) \<longleftrightarrow> (\<exists>a b. s = a @ p @ b)"
  proof
    assume "\<exists>a b. rev s = a @ rev p @ b"
    then obtain a b where "rev s = a @ rev p @ b" by blast
    then have "s = rev b @ p @ rev a" by (metis append_assoc rev_append rev_rev_ident)
    then show "\<exists>a b. s = a @ p @ b" by blast
  next
    assume "\<exists>a b. s = a @ p @ b"
    then obtain a b where "s = a @ p @ b" by blast
    then have "rev s = rev b @ rev p @ rev a" by simp
    then show "\<exists>a b. rev s = a @ rev p @ b" by blast
  qed
  then show ?thesis by (simp add: js_includes_iff)
qed

lemma js_includes_rev2: "js_includes (rev s) p = js_includes s (rev p)"
  using js_includes_rev [of s "rev p"] by simp

lemma js_includes_dropWhile:
  assumes "p \<noteq> []" and "\<not> js_space (hd p)"
  shows "js_includes (dropWhile js_space s) p = js_includes s p"
proof (induction s)
  case Nil
  show ?case by simp
next
  case (Cons x xs)
  show ?case
  proof (cases "js_space x")
    case True
    have "\<not> startsWith (x # xs) p"
    proof
      assume "startsWith (x # xs) p"
      with assms(1) have "hd p = x" by (cases p) (auto simp: startsWith_def)
      with True assms(2) show False by simp
    qed
    with True Cons show ?thesis by simp
  next
    case False
    then show ?thesis by simp
  qed
qed

lemma js_includes_trim_arrow: "js_includes (trim l) ''-->'' = js_includes l ''-->''"
proof -
  have a: "\<not> js_space (hd ''-->'')" and b: "\<not> js_space (hd (rev ''-->''))"
    by (simp_all add: js_space_def)
  have "js_includes (trim l) ''-->''
      = js_includes (dropWhile js_space (rev (dropWhile js_space l))) (rev ''-->'')"
    unfolding trim_def by (rule js_includes_rev2)
  also have "\<dots> = js_includes (rev (dropWhile js_space l)) (rev ''-->'')"
    by (rule js_includes_dropWhile [OF _ b]) simp
  also have "\<dots> = js_includes (dropWhile js_space l) ''-->''"
    by (simp add: js_includes_rev2)
  also have "\<dots> = js_includes l ''-->''"
    by (rule js_includes_dropWhile [OF _ a]) simp
  finally show ?thesis .
qed

lemma parse_cues_skip:
  "\<not> js_includes h ''-->'' \<Longrightarrow> parse_cues (h # ls) cues = parse_cues ls cues"
  by (simp add: js_includes_trim_arrow)

























section \<open>The timestamp codec: formatting and parsing back\<close>
































section \<open>Serializing and parsing back\<close>
























section \<open>The empty speaker\<close>





section \<open>Merging documents\<close>

lemma js_le_total: "x \<noteq> NaN \<Longrightarrow> y \<noteq> NaN \<Longrightarrow> js_le x y \<or> js_le y x"
  by (cases x; cases y) auto

lemma js_le_trans: "js_le x y \<Longrightarrow> js_le y z \<Longrightarrow> js_le x z"
  by (cases x; cases y; cases z) auto

lemma insert_cue_test:
  "cue_start a \<noteq> NaN \<Longrightarrow> cue_start b \<noteq> NaN \<Longrightarrow>
     js_lt (Num 0) (compare_start a b) = (\<not> start_le a b)"
  by (cases "cue_start a"; cases "cue_start b")
     (auto simp: compare_start_def js_sub_def start_le_def)

lemma set_insert_cue: "set (insert_cue a bs) = insert a (set bs)"
  by (induction bs) auto

lemma count_insert_cue: "count_list (insert_cue a bs) c = count_list (a # bs) c"
  by (induction bs) auto

lemma sorted_insert_cue:
  assumes "cue_start a \<noteq> NaN"
  shows "\<forall>b \<in> set bs. cue_start b \<noteq> NaN \<Longrightarrow> sorted_wrt start_le bs \<Longrightarrow>
     sorted_wrt start_le (insert_cue a bs)"
proof (induction bs)
  case Nil
  show ?case by simp
next
  case (Cons b bs)
  then have b: "cue_start b \<noteq> NaN" and rest: "\<forall>b \<in> set bs. cue_start b \<noteq> NaN"
    and sb: "\<forall>x \<in> set bs. start_le b x" and sorted: "sorted_wrt start_le bs" by simp_all
  show ?case
  proof (cases "start_le a b")
    case True
    have "start_le a x" if "x \<in> set bs" for x
      using True sb that unfolding start_le_def by (blast intro: js_le_trans)
    with True Cons.prems(2) show ?thesis
      by (simp add: insert_cue_test [OF assms b])
  next
    case False
    with js_le_total [OF assms b] have "start_le b a" by (simp add: start_le_def)
    with False sb Cons.IH [OF rest sorted] show ?thesis
      by (simp add: insert_cue_test [OF assms b] set_insert_cue)
  qed
qed

lemma sort_by_start_props:
  "set (sort_by_start cs) = set cs"
  "count_list (sort_by_start cs) c = count_list cs c"
  "\<forall>b \<in> set cs. cue_start b \<noteq> NaN \<Longrightarrow> sorted_wrt start_le (sort_by_start cs)"
proof -
  show s: "set (sort_by_start cs) = set cs" for cs
    unfolding sort_by_start_def by (induction cs) (simp_all add: set_insert_cue)
  show "count_list (sort_by_start cs) c = count_list cs c"
    unfolding sort_by_start_def by (induction cs) (simp_all add: count_insert_cue)
  show "\<forall>b \<in> set cs. cue_start b \<noteq> NaN \<Longrightarrow> sorted_wrt start_le (sort_by_start cs)"
  proof (induction cs)
    case Nil
    show ?case by (simp add: sort_by_start_def)
  next
    case (Cons a cs)
    then have a: "cue_start a \<noteq> NaN" and rest: "\<forall>b \<in> set cs. cue_start b \<noteq> NaN" by simp_all
    have "sorted_wrt start_le (insert_cue a (sort_by_start cs))"
      by (rule sorted_insert_cue [OF a]) (use rest s Cons.IH in simp_all)
    then show ?case by (simp add: sort_by_start_def)
  qed
qed

text \<open>
  Claim C3, as the program has it. For every list of documents with offsets, the merged
  document is the serialization of a rearrangement of the cues parsed from the
  documents, each with its document's offset added to start and end; and when every
  start among them is a number, not NaN, they stand in non-decreasing order of start. A
  cue from 0 to 2 merged under the offset 10 is serialized from 10 to 12, and of two
  documents with a cue at 10 and a cue at 1, both under the offset 0, the cue at 1 comes
  first.
\<close>

theorem mergeVTT_sorted:
  "(\<exists>cues. mergeVTT chunks = serializeVTT cues
       \<and> (\<forall>c. count_list cues c =
             count_list (concat (map (\<lambda>chunk.
                 map (\<lambda>cue. \<lparr>cue_start = js_add (cue_start cue) (vtt_offset chunk),
                              cue_end = js_add (cue_end cue) (vtt_offset chunk),
                              cue_speaker = cue_speaker cue, cue_text = cue_text cue\<rparr>)
                   (parseVTT (vtt chunk))) chunks)) c)
       \<and> ((\<forall>c \<in> set cues. cue_start c \<noteq> NaN) \<longrightarrow>
            sorted_wrt (\<lambda>a b. js_le (cue_start a) (cue_start b)) cues))
   \<and> mergeVTT [\<lparr>vtt = doc_0_2, vtt_offset = Num 10\<rparr>]
       = serializeVTT [\<lparr>cue_start = Num 10, cue_end = Num 12, cue_speaker = None, cue_text = ''Hello''\<rparr>]
   \<and> mergeVTT [\<lparr>vtt = doc_10_12, vtt_offset = Num 0\<rparr>, \<lparr>vtt = doc_1_3, vtt_offset = Num 0\<rparr>]
       = serializeVTT [\<lparr>cue_start = Num 1, cue_end = Num 3, cue_speaker = None, cue_text = ''Earlier''\<rparr>,
                       \<lparr>cue_start = Num 10, cue_end = Num 12, cue_speaker = None, cue_text = ''Later''\<rparr>]"
proof -
  let ?all = "concat (map (\<lambda>chunk.
                 map (\<lambda>cue. \<lparr>cue_start = js_add (cue_start cue) (vtt_offset chunk),
                              cue_end = js_add (cue_end cue) (vtt_offset chunk),
                              cue_speaker = cue_speaker cue, cue_text = cue_text cue\<rparr>)
                   (parseVTT (vtt chunk))) chunks)"
  have all: "merged_cues chunks = ?all"
    unfolding merged_cues_def offset_cue_def ..
  let ?cues = "sort_by_start (merged_cues chunks)"
  have a: "mergeVTT chunks = serializeVTT ?cues" by (simp add: mergeVTT_def)
  have b: "\<forall>c. count_list ?cues c = count_list ?all c"
    unfolding all [symmetric] by (simp add: sort_by_start_props(2))
  have c: "(\<forall>c \<in> set ?cues. cue_start c \<noteq> NaN) \<longrightarrow>
      sorted_wrt (\<lambda>a b. js_le (cue_start a) (cue_start b)) ?cues"
    using sort_by_start_props(3) [of "merged_cues chunks"]
    by (simp add: sort_by_start_props(1) start_le_def [abs_def])
  have d: "mergeVTT [\<lparr>vtt = doc_0_2, vtt_offset = Num 10\<rparr>]
       = serializeVTT [\<lparr>cue_start = Num 10, cue_end = Num 12, cue_speaker = None, cue_text = ''Hello''\<rparr>]"
    by code_simp
  have e: "mergeVTT [\<lparr>vtt = doc_10_12, vtt_offset = Num 0\<rparr>, \<lparr>vtt = doc_1_3, vtt_offset = Num 0\<rparr>]
       = serializeVTT [\<lparr>cue_start = Num 1, cue_end = Num 3, cue_speaker = None, cue_text = ''Earlier''\<rparr>,
                       \<lparr>cue_start = Num 10, cue_end = Num 12, cue_speaker = None, cue_text = ''Later''\<rparr>]"
    by code_simp
  from a b c d e show ?thesis by blast
qed

theorem mergeVTT_sorted_witness:
  "\<exists>cues. mergeVTT [\<lparr>vtt = doc_10_12, vtt_offset = Num 5\<rparr>, \<lparr>vtt = doc_1_3, vtt_offset = Num 0\<rparr>]
             = serializeVTT cues
     \<and> set cues = {\<lparr>cue_start = Num 15, cue_end = Num 17, cue_speaker = None, cue_text = ''Later''\<rparr>,
                    \<lparr>cue_start = Num 1, cue_end = Num 3, cue_speaker = None, cue_text = ''Earlier''\<rparr>}
     \<and> sorted_wrt (\<lambda>a b. js_le (cue_start a) (cue_start b)) cues"
proof -
  let ?chunks = "[\<lparr>vtt = doc_10_12, vtt_offset = Num 5\<rparr>, \<lparr>vtt = doc_1_3, vtt_offset = Num 0\<rparr>]"
  let ?a = "\<lparr>cue_start = Num 15, cue_end = Num 17, cue_speaker = None, cue_text = ''Later''\<rparr>"
  let ?b = "\<lparr>cue_start = Num 1, cue_end = Num 3, cue_speaker = None, cue_text = ''Earlier''\<rparr>"
  have all: "concat (map (\<lambda>chunk.
                 map (\<lambda>cue. \<lparr>cue_start = js_add (cue_start cue) (vtt_offset chunk),
                              cue_end = js_add (cue_end cue) (vtt_offset chunk),
                              cue_speaker = cue_speaker cue, cue_text = cue_text cue\<rparr>)
                   (parseVTT (vtt chunk))) ?chunks) = [?a, ?b]"
    by code_simp
  from mergeVTT_sorted [of ?chunks] obtain cues where
    m: "mergeVTT ?chunks = serializeVTT cues"
    and c: "\<forall>c. count_list cues c = count_list [?a, ?b] c"
    and s: "(\<forall>c \<in> set cues. cue_start c \<noteq> NaN) \<longrightarrow>
            sorted_wrt (\<lambda>a b. js_le (cue_start a) (cue_start b)) cues"
    unfolding all by blast
  have "c \<in> set cues \<longleftrightarrow> c \<in> set [?a, ?b]" for c
    using c count_list_0_iff [of cues c] count_list_0_iff [of "[?a, ?b]" c] by metis
  then have set: "set cues = {?a, ?b}" by auto
  then have "\<forall>c \<in> set cues. cue_start c \<noteq> NaN" by simp
  with s have "sorted_wrt (\<lambda>a b. js_le (cue_start a) (cue_start b)) cues" by blast
  with m set show ?thesis by blast
qed

text \<open>
  The claim as stated, for every list of documents, fails on a timestamp line that is
  not numeric: its cue has the start NaN, which no order of the cues makes
  non-decreasing; and with such a cue between them, the cue that starts at 5 is
  serialized before the cue that starts at 1.
\<close>

theorem mergeVTT_sorted_counterexample:
  "mergeVTT [\<lparr>vtt = doc_bad_stamp, vtt_offset = Num 0\<rparr>]
     = serializeVTT [\<lparr>cue_start = NaN, cue_end = NaN, cue_speaker = None, cue_text = ''Hello''\<rparr>,
                     \<lparr>cue_start = Num 1, cue_end = Num 3, cue_speaker = None, cue_text = ''World''\<rparr>]
   \<and> \<not> sorted_wrt (\<lambda>a b. js_le (cue_start a) (cue_start b))
        [\<lparr>cue_start = NaN, cue_end = NaN, cue_speaker = None, cue_text = ''Hello''\<rparr>,
         \<lparr>cue_start = Num 1, cue_end = Num 3, cue_speaker = None, cue_text = ''World''\<rparr>]
   \<and> \<not> sorted_wrt (\<lambda>a b. js_le (cue_start a) (cue_start b))
        [\<lparr>cue_start = Num 1, cue_end = Num 3, cue_speaker = None, cue_text = ''World''\<rparr>,
         \<lparr>cue_start = NaN, cue_end = NaN, cue_speaker = None, cue_text = ''Hello''\<rparr>]
   \<and> mergeVTT [\<lparr>vtt = doc_bad_between, vtt_offset = Num 0\<rparr>]
     = serializeVTT [\<lparr>cue_start = Num 5, cue_end = Num 6, cue_speaker = None, cue_text = ''Five''\<rparr>,
                     \<lparr>cue_start = NaN, cue_end = NaN, cue_speaker = None, cue_text = ''Hello''\<rparr>,
                     \<lparr>cue_start = Num 1, cue_end = Num 3, cue_speaker = None, cue_text = ''One''\<rparr>]
   \<and> \<not> js_le (Num 5) (Num 1)"
proof -
  have a: "mergeVTT [\<lparr>vtt = doc_bad_stamp, vtt_offset = Num 0\<rparr>]
     = serializeVTT [\<lparr>cue_start = NaN, cue_end = NaN, cue_speaker = None, cue_text = ''Hello''\<rparr>,
                     \<lparr>cue_start = Num 1, cue_end = Num 3, cue_speaker = None, cue_text = ''World''\<rparr>]"
    by code_simp
  have b: "mergeVTT [\<lparr>vtt = doc_bad_between, vtt_offset = Num 0\<rparr>]
     = serializeVTT [\<lparr>cue_start = Num 5, cue_end = Num 6, cue_speaker = None, cue_text = ''Five''\<rparr>,
                     \<lparr>cue_start = NaN, cue_end = NaN, cue_speaker = None, cue_text = ''Hello''\<rparr>,
                     \<lparr>cue_start = Num 1, cue_end = Num 3, cue_speaker = None, cue_text = ''One''\<rparr>]"
    by code_simp
  from a b show ?thesis by simp
qed

end
